theory Spec2Isabelle
  imports Complex_Main "HOL-Library.AList" "HOL-Library.Word"
begin

section \<open>Exceptions: \<^verbatim>\<open>z402/exceptions.py\<close>\<close>

text \<open>
  Values decoded from JSON (\<^verbatim>\<open>response.json()\<close>, \<^verbatim>\<open>json.loads\<close>).  A Python dict is
  an association list; numbers are rationals.  Strings are lists of 8-bit characters:
  code points above 255 are outside the model.
\<close>

datatype json =
    JNull
  | JBool bool
  | JNum rat
  | JStr string
  | JArr "json list"
  | JObj "(string \<times> json) list"

text \<open>
  The exception classes of the SDK, one constructor per class, with the fields the
  class stores besides the fixed \<^verbatim>\<open>status_code\<close> and \<^verbatim>\<open>code\<close> it passes to
  \<^verbatim>\<open>Z402Error.__init__\<close>.  The message and the details of the errors raised from an
  HTTP response are whatever JSON values the body holds.  The limit and the current
  spending of \<^verbatim>\<open>BudgetExceededError\<close> are the decimals whose strings the source stores.
\<close>

datatype z402_error =
    AuthenticationError json json
  | InvalidRequestError json json
  | NotFoundError json json
  | RateLimitError json "int option" json
  | PaymentRequiredError json json json json
  | APIError json "int option" json
  | NetworkError string "string option"
  | WebhookVerificationError string
  | BudgetExceededError string rat rat
  | WalletError string

fun status_code :: "z402_error \<Rightarrow> int option" where
  "status_code (AuthenticationError m d) = Some 401"
| "status_code (InvalidRequestError m d) = Some 400"
| "status_code (NotFoundError m d) = Some 404"
| "status_code (RateLimitError m r d) = Some 429"
| "status_code (PaymentRequiredError m a r d) = Some 402"
| "status_code (APIError m s d) = s"
| "status_code (NetworkError m d) = Some 0"
| "status_code (WebhookVerificationError m) = Some 400"
| "status_code (BudgetExceededError m l c) = None"
| "status_code (WalletError m) = None"

fun code :: "z402_error \<Rightarrow> string option" where
  "code (AuthenticationError m d) = Some ''authentication_error''"
| "code (InvalidRequestError m d) = Some ''invalid_request''"
| "code (NotFoundError m d) = Some ''not_found''"
| "code (RateLimitError m r d) = Some ''rate_limit''"
| "code (PaymentRequiredError m a r d) = Some ''payment_required''"
| "code (APIError m s d) = None"
| "code (NetworkError m d) = Some ''network_error''"
| "code (WebhookVerificationError m) = Some ''webhook_verification_error''"
| "code (BudgetExceededError m l c) = Some ''budget_exceeded''"
| "code (WalletError m) = Some ''wallet_error''"

text \<open>What a call can raise: an SDK error, or one of the built-in exceptions that the
  source lets escape.\<close>

datatype py_exception =
    Z402 z402_error
  | ValueError
  | AttributeError
  | TypeError
  | IndexError
  | UnboundLocalError
  | UnicodeDecodeError
  | DecimalDivisionError

section \<open>Spend ledger: \<^verbatim>\<open>z402/utils/budget.py\<close>\<close>

text \<open>
  Monetary amounts are Python \<^verbatim>\<open>Decimal\<close> values; they are modelled as rationals
  (exact arithmetic, exact comparison).  The special values NaN and Infinity and the
  rounding of the decimal context (28 significant digits) are outside the model, and so
  is the parsing of the amount strings: an amount is the value \<^verbatim>\<open>Decimal(amount)\<close>.

  An instant is a \<^verbatim>\<open>datetime\<close>, modelled as an integer number of microseconds (the
  resolution of \<^verbatim>\<open>datetime\<close>).  Every call of \<^verbatim>\<open>datetime.now()\<close> in the source is
  an explicit argument of the model, in the order in which the source reads the clock.
\<close>

type_synonym instant = int

definition timedelta_days :: "int \<Rightarrow> int" where
  "timedelta_days d = d * 86400000000"

definition timedelta_hours :: "int \<Rightarrow> int" where
  "timedelta_hours h = h * 3600000000"

text \<open>One entry of \<^verbatim>\<open>self._transactions\<close>: the dict with the keys
  \<^verbatim>\<open>amount\<close>, \<^verbatim>\<open>transaction_id\<close>, \<^verbatim>\<open>timestamp\<close>, \<^verbatim>\<open>metadata\<close>.\<close>

record spend_record =
  amount :: rat
  transaction_id :: string
  timestamp :: instant
  metadata :: "(string \<times> json) list"

record BudgetManager =
  daily_limit :: rat
  hourly_limit :: "rat option"
  transaction_limit :: "rat option"
  transactions :: "spend_record list"

text \<open>\<^verbatim>\<open>__init__\<close>: an absent (or empty-string) limit is \<^verbatim>\<open>None\<close>; the ledger starts
  empty.\<close>

definition BudgetManager_init :: "rat \<Rightarrow> rat option \<Rightarrow> rat option \<Rightarrow> BudgetManager" where
  "BudgetManager_init d h t =
     \<lparr>daily_limit = d, hourly_limit = h, transaction_limit = t, transactions = []\<rparr>"

text \<open>\<^verbatim>\<open>sum(Decimal(tx["amount"]) for tx in self._transactions if tx["timestamp"] >= start)\<close>\<close>

definition spent_since :: "spend_record list \<Rightarrow> instant \<Rightarrow> rat" where
  "spent_since txs start = sum_list (map amount (filter (\<lambda>tx. start \<le> timestamp tx) txs))"

text \<open>
  \<^verbatim>\<open>can_spend\<close>.  The source tests an optional limit by truthiness
  (\<^verbatim>\<open>if self.transaction_limit and ...\<close>, \<^verbatim>\<open>if self.hourly_limit:\<close>): \<^verbatim>\<open>None\<close> is
  false, and so is a \<^verbatim>\<open>Decimal\<close> equal to zero.  The method reads the manager and the
  clock and assigns nothing, so the model returns the answer alone.
\<close>

definition can_spend :: "BudgetManager \<Rightarrow> rat \<Rightarrow> instant \<Rightarrow> bool" where
  "can_spend b spend_amount now =
     (if (case transaction_limit b of None \<Rightarrow> False
          | Some l \<Rightarrow> l \<noteq> 0 \<and> spend_amount > l)
      then False
      else if spent_since (transactions b) (now - timedelta_days 1) + spend_amount > daily_limit b
      then False
      else (case hourly_limit b of
              None \<Rightarrow> True
            | Some h \<Rightarrow>
                if h \<noteq> 0
                then \<not> (spent_since (transactions b) (now - timedelta_hours 1) + spend_amount > h)
                else True))"

definition get_daily_spent :: "BudgetManager \<Rightarrow> instant \<Rightarrow> rat" where
  "get_daily_spent b now = spent_since (transactions b) (now - timedelta_days 1)"

definition get_hourly_spent :: "BudgetManager \<Rightarrow> instant \<Rightarrow> rat" where
  "get_hourly_spent b now = spent_since (transactions b) (now - timedelta_hours 1)"

definition get_remaining_daily :: "BudgetManager \<Rightarrow> instant \<Rightarrow> rat" where
  "get_remaining_daily b now = daily_limit b - get_daily_spent b now"

definition get_remaining_hourly :: "BudgetManager \<Rightarrow> instant \<Rightarrow> rat option" where
  "get_remaining_hourly b now =
     (case hourly_limit b of
        None \<Rightarrow> None
      | Some h \<Rightarrow> if h \<noteq> 0 then Some (h - get_hourly_spent b now) else None)"

definition get_transaction_history :: "BudgetManager \<Rightarrow> int \<Rightarrow> instant \<Rightarrow> spend_record list" where
  "get_transaction_history b hours now =
     filter (\<lambda>tx. now - timedelta_hours hours \<le> timestamp tx) (transactions b)"

definition reset_history :: "BudgetManager \<Rightarrow> BudgetManager" where
  "reset_history b = b\<lparr>transactions := []\<rparr>"

text \<open>\<^verbatim>\<open>record_spend\<close> reads the clock twice: once inside \<^verbatim>\<open>can_spend\<close>
  (\<open>t_check\<close>), and once more afterwards (\<open>t_next\<close>): inside \<^verbatim>\<open>get_daily_spent\<close>
  when it raises, for the timestamp of the new record when it appends.  The result is the
  exception or \<^verbatim>\<open>None\<close>, together with the manager after the call.\<close>

definition record_spend ::
  "BudgetManager \<Rightarrow> rat \<Rightarrow> string \<Rightarrow> (string \<times> json) list option \<Rightarrow> instant \<Rightarrow> instant
     \<Rightarrow> (py_exception + unit) \<times> BudgetManager" where
  "record_spend b amt txid meta t_check t_next =
     (if \<not> can_spend b amt t_check
      then (Inl (Z402 (BudgetExceededError ''Spending would exceed budget limits''
                   (daily_limit b) (get_daily_spent b t_next))), b)
      else (Inr (),
            b\<lparr>transactions := transactions b @
                 [\<lparr>amount = amt, transaction_id = txid, timestamp = t_next,
                   metadata = (case meta of None \<Rightarrow> [] | Some m \<Rightarrow> m)\<rparr>]\<rparr>))"

text \<open>\<^verbatim>\<open>get_statistics\<close> reads the clock in \<^verbatim>\<open>get_daily_spent\<close> (\<open>t_daily\<close>) and in
  \<^verbatim>\<open>get_hourly_spent\<close> (\<open>t_hourly\<close>).  The strings of the result are modelled by the
  decimals they print, the float percentages by the exact quotient.  The division by a
  zero daily limit raises.\<close>

record statistics =
  stat_daily_limit :: rat
  stat_daily_spent :: rat
  stat_daily_remaining :: rat
  stat_daily_usage_percent :: rat
  stat_hourly :: "(rat \<times> rat \<times> rat \<times> rat) option"
  stat_transaction_limit :: "rat option"

definition get_statistics :: "BudgetManager \<Rightarrow> instant \<Rightarrow> instant \<Rightarrow> py_exception + statistics" where
  "get_statistics b t_daily t_hourly =
     (let daily_spent = get_daily_spent b t_daily;
          hourly_spent = get_hourly_spent b t_hourly
      in if daily_limit b = 0 then Inl DecimalDivisionError
         else Inr \<lparr>stat_daily_limit = daily_limit b,
                   stat_daily_spent = daily_spent,
                   stat_daily_remaining = daily_limit b - daily_spent,
                   stat_daily_usage_percent = (daily_spent / daily_limit b) * 100,
                   stat_hourly =
                     (case hourly_limit b of
                        None \<Rightarrow> None
                      | Some h \<Rightarrow>
                          if h \<noteq> 0
                          then Some (h, hourly_spent, h - hourly_spent, (hourly_spent / h) * 100)
                          else None),
                   stat_transaction_limit =
                     (case transaction_limit b of
                        None \<Rightarrow> None
                      | Some l \<Rightarrow> if l \<noteq> 0 then Some l else None)\<rparr>)"

subsection \<open>Sequences of calls\<close>

text \<open>A call of \<^verbatim>\<open>record_spend\<close> with its arguments and its two clock readings, and
  a sequential run of such calls from a given manager.  The run collects the outcome of
  every call (a caller that catches \<^verbatim>\<open>BudgetExceededError\<close> and goes on).\<close>

record spend_call =
  call_amount :: rat
  call_transaction_id :: string
  call_metadata :: "(string \<times> json) list option"
  call_t_check :: instant
  call_t_next :: instant

fun record_spends ::
  "BudgetManager \<Rightarrow> spend_call list \<Rightarrow> (py_exception + unit) list \<times> BudgetManager" where
  "record_spends b [] = ([], b)"
| "record_spends b (c # cs) =
     (case record_spend b (call_amount c) (call_transaction_id c) (call_metadata c)
             (call_t_check c) (call_t_next c) of
        (r, b1) \<Rightarrow> (case record_spends b1 cs of (rs, b2) \<Rightarrow> (r # rs, b2)))"

definition spend :: "rat \<Rightarrow> string \<Rightarrow> instant \<Rightarrow> instant \<Rightarrow> spend_call" where
  "spend a i t1 t2 = \<lparr>call_amount = a, call_transaction_id = i, call_metadata = None,
                      call_t_check = t1, call_t_next = t2\<rparr>"

subsection \<open>Concurrent calls of \<^verbatim>\<open>record_spend\<close>\<close>

text \<open>
  \<^verbatim>\<open>record_spend\<close> takes \<^verbatim>\<open>self._lock\<close> twice: \<^verbatim>\<open>can_spend\<close> acquires and releases
  it around the check, and the append (or \<^verbatim>\<open>get_daily_spent\<close>, on the raise path) acquires
  it again.  The lock makes each of these sections atomic and nothing more, so a
  coroutine running \<^verbatim>\<open>record_spend\<close> is modelled by its program counter between the
  sections, and a schedule names, step by step, the task that runs its next section and
  the clock reading of that section.
\<close>

datatype task_pc = Pending | Checked | Failing | Raised py_exception | Appended

record spend_task =
  task_amount :: rat
  task_transaction_id :: string
  task_metadata :: "(string \<times> json) list option"
  task_pc :: task_pc


definition task_step :: "BudgetManager \<Rightarrow> spend_task \<Rightarrow> instant \<Rightarrow> BudgetManager \<times> spend_task" where
  "task_step b k now =
     (case task_pc k of
        Pending \<Rightarrow>
          (b, k\<lparr>task_pc := (if can_spend b (task_amount k) now then Checked else Failing)\<rparr>)
      | Failing \<Rightarrow>
          (b, k\<lparr>task_pc := Raised (Z402 (BudgetExceededError ''Spending would exceed budget limits''
                                     (daily_limit b) (get_daily_spent b now)))\<rparr>)
      | Checked \<Rightarrow>
          (b\<lparr>transactions := transactions b @
                [\<lparr>amount = task_amount k, transaction_id = task_transaction_id k,
                  timestamp = now,
                  metadata = (case task_metadata k of None \<Rightarrow> [] | Some m \<Rightarrow> m)\<rparr>]\<rparr>,
           k\<lparr>task_pc := Appended\<rparr>)
      | Raised e \<Rightarrow> (b, k)
      | Appended \<Rightarrow> (b, k))"


section \<open>Python built-ins used by the SDK\<close>

subsection \<open>\<^verbatim>\<open>str(n)\<close> and \<^verbatim>\<open>int(s)\<close>\<close>

definition is_digit :: "char \<Rightarrow> bool" where
  "is_digit c = (48 \<le> (of_char c :: nat) \<and> (of_char c :: nat) \<le> 57)"

definition digit_val :: "char \<Rightarrow> nat" where
  "digit_val c = of_char c - 48"

definition digit_char :: "nat \<Rightarrow> char" where
  "digit_char n = char_of (48 + n mod 10)"

text \<open>\<^verbatim>\<open>str(n)\<close> and the f-string \<^verbatim>\<open>f"{n}"\<close> for an integer: decimal digits, a minus
  sign for a negative number.\<close>

fun str_nat :: "nat \<Rightarrow> string" where
  "str_nat n = (if n < 10 then [digit_char n] else str_nat (n div 10) @ [digit_char n])"

declare str_nat.simps [simp del]

definition str_int :: "int \<Rightarrow> string" where
  "str_int i = (if i < 0 then CHR ''-'' # str_nat (nat (- i)) else str_nat (nat i))"

text \<open>
  \<^verbatim>\<open>int(s)\<close> for a string: surrounding whitespace is stripped (the characters for which
  \<^verbatim>\<open>str.isspace\<close> holds; below code point 256 these are 9 to 13, 28 to 32, 133 and
  160), an optional sign follows, then decimal digits in which single underscores may
  separate digits.  Anything else is \<^verbatim>\<open>ValueError\<close>, here \<open>None\<close>.  (The limit on
  the number of digits that recent interpreters impose is outside the model.)
\<close>

definition is_space :: "char \<Rightarrow> bool" where
  "is_space c = (let n = (of_char c :: nat) in
     (9 \<le> n \<and> n \<le> 13) \<or> (28 \<le> n \<and> n \<le> 32) \<or> n = 133 \<or> n = 160)"

definition strip :: "string \<Rightarrow> string" where
  "strip s = rev (dropWhile is_space (rev (dropWhile is_space s)))"

fun digits_value :: "nat \<Rightarrow> string \<Rightarrow> nat option" where
  "digits_value acc [] = Some acc"
| "digits_value acc (c # cs) =
     (if is_digit c then digits_value (10 * acc + digit_val c) cs
      else if c = CHR ''_''
      then (case cs of
              [] \<Rightarrow> None
            | d # ds \<Rightarrow> if is_digit d then digits_value (10 * acc + digit_val d) ds else None)
      else None)"

definition parse_unsigned :: "string \<Rightarrow> nat option" where
  "parse_unsigned s =
     (case s of
        [] \<Rightarrow> None
      | c # cs \<Rightarrow> if is_digit c then digits_value (digit_val c) cs else None)"

definition parse_int :: "string \<Rightarrow> int option" where
  "parse_int s =
     (case strip s of
        [] \<Rightarrow> None
      | c # cs \<Rightarrow>
          if c = CHR ''-'' then map_option (\<lambda>n. - int n) (parse_unsigned cs)
          else if c = CHR ''+'' then map_option int (parse_unsigned cs)
          else map_option int (parse_unsigned (c # cs)))"

subsection \<open>\<^verbatim>\<open>str.split\<close>, \<^verbatim>\<open>str.startswith\<close>, \<^verbatim>\<open>next\<close>\<close>

text \<open>\<^verbatim>\<open>s.split(sep)\<close> for a separator of one character: every occurrence splits, so
  the result is never empty.\<close>

fun split_on :: "char \<Rightarrow> string \<Rightarrow> string list" where
  "split_on sep [] = [[]]"
| "split_on sep (c # cs) =
     (if c = sep then [] # split_on sep cs
      else (case split_on sep cs of
              [] \<Rightarrow> [[c]]
            | p # ps \<Rightarrow> (c # p) # ps))"

text \<open>\<^verbatim>\<open>s.split(sep, 1)[1]\<close>: what follows the first separator; \<^verbatim>\<open>IndexError\<close> (here
  \<open>None\<close>) when there is none.\<close>

fun after_first :: "char \<Rightarrow> string \<Rightarrow> string option" where
  "after_first sep [] = None"
| "after_first sep (c # cs) = (if c = sep then Some cs else after_first sep cs)"

definition startswith :: "string \<Rightarrow> string \<Rightarrow> bool" where
  "startswith s p = (take (length p) s = p)"

text \<open>\<^verbatim>\<open>next((p for p in parts if ...), None)\<close> is \<^const>\<open>find\<close>.\<close>

section \<open>Retry with backoff: \<^verbatim>\<open>z402/utils/retry.py\<close>\<close>

text \<open>\<^verbatim>\<open>is_retryable_error\<close>: the \<^verbatim>\<open>isinstance\<close> tests in the order of the source; the
  last one needs a truthy \<^verbatim>\<open>status_code\<close> between 500 and 599.\<close>

fun is_retryable_error :: "py_exception \<Rightarrow> bool" where
  "is_retryable_error (Z402 (NetworkError m d)) = True"
| "is_retryable_error (Z402 (RateLimitError m r d)) = True"
| "is_retryable_error (Z402 e) =
     (case status_code e of
        None \<Rightarrow> False
      | Some c \<Rightarrow> c \<noteq> 0 \<and> 500 \<le> c \<and> c < 600)"
| "is_retryable_error e = False"

text \<open>
  The parameters of the decorator.  The delays are Python floats; they are modelled as
  rationals, so rounding and overflow of the float arithmetic are outside the model.
\<close>

record retry_config =
  max_retries :: int
  initial_delay :: rat
  max_delay :: rat
  backoff_multiplier :: rat

definition default_retry_config :: retry_config where
  "default_retry_config =
     \<lparr>max_retries = 3, initial_delay = 1, max_delay = 30, backoff_multiplier = 2\<rparr>"

text \<open>
  What a run of the wrapper did: the value returned or the exception raised, the number
  of times the wrapped function was invoked, the exceptions those invocations raised (in
  order), the arguments of \<^verbatim>\<open>asyncio.sleep\<close> (in order), and the state the wrapped
  function left behind.
\<close>

record ('a, 's) retry_outcome =
  outcome :: "py_exception + 'a"
  calls :: nat
  raised :: "py_exception list"
  sleeps :: "rat list"
  final_state :: 's

text \<open>\<^verbatim>\<open>isinstance(error, RateLimitError) and error.retry_after\<close>: the retry-after of a
  rate-limit error when it is truthy (neither \<^verbatim>\<open>None\<close> nor 0).\<close>

fun truthy_retry_after :: "py_exception \<Rightarrow> int option" where
  "truthy_retry_after (Z402 (RateLimitError m (Some r) d)) = (if r \<noteq> 0 then Some r else None)"
| "truthy_retry_after e = None"

definition next_delay :: "retry_config \<Rightarrow> py_exception \<Rightarrow> rat \<Rightarrow> rat" where
  "next_delay cfg error delay =
     (case truthy_retry_after error of
        Some r \<Rightarrow> min (of_int r) (max_delay cfg)
      | None \<Rightarrow> min delay (max_delay cfg))"

text \<open>What the rest of a run, after a failed invocation and the wait that follows
  it, adds to the account of the run.  The source sleeps for \<open>d\<close> here.\<close>

definition after_wait ::
  "rat \<Rightarrow> py_exception \<Rightarrow> ('a, 's) retry_outcome \<Rightarrow> ('a, 's) retry_outcome" where
  "after_wait d error r =
     r\<lparr>calls := Suc (calls r), raised := error # raised r, sleeps := d # sleeps r\<rparr>"

text \<open>
  The body of \<^verbatim>\<open>wrapper\<close>.  The wrapped coroutine is a function of an explicit state
  \<open>'s\<close> (the world it acts on).  The loop runs over the values of
  \<^verbatim>\<open>range(max_retries + 1)\<close> that are left; \<open>last_error\<close> is \<open>None\<close> while the
  variable is unbound.  After the loop, \<^verbatim>\<open>raise last_error\<close> raises
  \<^verbatim>\<open>UnboundLocalError\<close> when no iteration assigned it.
\<close>

fun retry_loop ::
  "retry_config \<Rightarrow> ('s \<Rightarrow> (py_exception + 'a) \<times> 's) \<Rightarrow> int list \<Rightarrow> rat \<Rightarrow> py_exception option
     \<Rightarrow> 's \<Rightarrow> ('a, 's) retry_outcome" where
  "retry_loop cfg func [] delay last_error s =
     \<lparr>outcome = (case last_error of None \<Rightarrow> Inl UnboundLocalError | Some e \<Rightarrow> Inl e),
      calls = 0, raised = [], sleeps = [], final_state = s\<rparr>"
| "retry_loop cfg func (attempt # rest) delay last_error s =
     (case func s of
        (Inr v, s') \<Rightarrow>
          \<lparr>outcome = Inr v, calls = 1, raised = [], sleeps = [], final_state = s'\<rparr>
      | (Inl error, s') \<Rightarrow>
          if \<not> is_retryable_error error
          then \<lparr>outcome = Inl error, calls = 1, raised = [error], sleeps = [], final_state = s'\<rparr>
          else if attempt = max_retries cfg
          then \<lparr>outcome = Inl error, calls = 1, raised = [error], sleeps = [], final_state = s'\<rparr>
          else (let d = next_delay cfg error delay
                in after_wait d error
                     (retry_loop cfg func rest (d * backoff_multiplier cfg) (Some error) s')))"

definition retry_with_backoff ::
  "retry_config \<Rightarrow> ('s \<Rightarrow> (py_exception + 'a) \<times> 's) \<Rightarrow> 's \<Rightarrow> ('a, 's) retry_outcome" where
  "retry_with_backoff cfg func s =
     retry_loop cfg func [0..max_retries cfg] (initial_delay cfg) None s"




text \<open>Wrapped functions for examples and for counting: one that raises the same exception
  at every invocation, and a wrapper that counts the invocations of any function in its
  state.\<close>

definition always_raising :: "py_exception \<Rightarrow> unit \<Rightarrow> (py_exception + unit) \<times> unit" where
  "always_raising e u = (Inl e, ())"

definition counting ::
  "('s \<Rightarrow> (py_exception + 'a) \<times> 's) \<Rightarrow> 's \<times> nat \<Rightarrow> (py_exception + 'a) \<times> ('s \<times> nat)" where
  "counting func sn = (case func (fst sn) of (r, s') \<Rightarrow> (r, (s', Suc (snd sn))))"

section \<open>HTTP client: \<^verbatim>\<open>z402/utils/http.py\<close>\<close>

text \<open>Python dicts whose order matters are association lists with distinct keys;
  \<^verbatim>\<open>d[k] = v\<close> is \<^const>\<open>AList.update\<close> (in place for a key that is present, at the end
  for a new one), and \<^verbatim>\<open>d.update(other)\<close> stores the entries of \<open>other\<close> in turn.\<close>

definition dict_update :: "('k \<times> 'v) list \<Rightarrow> ('k \<times> 'v) list \<Rightarrow> ('k \<times> 'v) list" where
  "dict_update d other = fold (\<lambda>(k, v). AList.update k v) other d"

text \<open>\<^verbatim>\<open>_build_headers\<close>: \<^verbatim>\<open>if custom_headers:\<close> is false for \<^verbatim>\<open>None\<close> and for the
  empty dict.\<close>

definition build_headers :: "string \<Rightarrow> (string \<times> string) list option \<Rightarrow> (string \<times> string) list" where
  "build_headers api_key custom_headers =
     (let headers = [(''Content-Type'', ''application/json''),
                     (''X-API-Key'', api_key),
                     (''User-Agent'', ''z402-python-sdk/0.1.0'')]
      in case custom_headers of
           None \<Rightarrow> headers
         | Some custom \<Rightarrow> if custom = [] then headers else dict_update headers custom)"

text \<open>
  What the source reads of an \<^verbatim>\<open>aiohttp.ClientResponse\<close>: the status, the headers, the
  result of \<^verbatim>\<open>response.json()\<close> (\<open>None\<close> when it raises) and of
  \<^verbatim>\<open>response.text()\<close>.  \<^verbatim>\<open>response.ok\<close> is aiohttp's \<^verbatim>\<open>400 > self.status\<close>, and the
  lookup in \<^verbatim>\<open>response.headers\<close> ignores the case of the header name.
\<close>

record response =
  status :: int
  headers :: "(string \<times> string) list"
  json_body :: "json option"
  text_body :: string

definition ok :: "response \<Rightarrow> bool" where
  "ok r = (status r < 400)"

definition lower_char :: "char \<Rightarrow> char" where
  "lower_char c =
     (if 65 \<le> (of_char c :: nat) \<and> (of_char c :: nat) \<le> 90
      then char_of ((of_char c :: nat) + 32) else c)"

definition headers_get :: "(string \<times> string) list \<Rightarrow> string \<Rightarrow> string option" where
  "headers_get hs name =
     map_of (map (\<lambda>(k, v). (map lower_char k, v)) hs) (map lower_char name)"

text \<open>Truthiness of a decoded value, for \<^verbatim>\<open>a or b\<close>.\<close>

fun truthy :: "json \<Rightarrow> bool" where
  "truthy JNull = False"
| "truthy (JBool b) = b"
| "truthy (JNum n) = (n \<noteq> 0)"
| "truthy (JStr s) = (s \<noteq> [])"
| "truthy (JArr xs) = (xs \<noteq> [])"
| "truthy (JObj kvs) = (kvs \<noteq> [])"

definition py_or :: "json \<Rightarrow> json \<Rightarrow> json" where
  "py_or a b = (if truthy a then a else b)"

text \<open>\<^verbatim>\<open>x.get(key, default)\<close>: only a dict has the method; on any other value the call
  raises \<^verbatim>\<open>AttributeError\<close>.\<close>

fun py_get :: "json \<Rightarrow> string \<Rightarrow> json \<Rightarrow> py_exception + json" where
  "py_get (JObj kvs) key dflt = Inr (case map_of kvs key of None \<Rightarrow> dflt | Some v \<Rightarrow> v)"
| "py_get j key dflt = Inl AttributeError"

text \<open>\<^verbatim>\<open>data.get("error", {}).get(field) or data.get(field)\<close>\<close>

definition error_field :: "json \<Rightarrow> string \<Rightarrow> py_exception + json" where
  "error_field data field =
     (case py_get data ''error'' (JObj []) of
        Inl e \<Rightarrow> Inl e
      | Inr err \<Rightarrow>
          (case py_get err field JNull of
             Inl e \<Rightarrow> Inl e
           | Inr v \<Rightarrow>
               if truthy v then Inr v
               else py_get data field JNull))"

text \<open>\<^verbatim>\<open>_handle_response\<close> (the debug print left out).  The branches on the status are
  in the order of the source.\<close>

definition response_data :: "response \<Rightarrow> json" where
  "response_data r =
     (case json_body r of
        Some j \<Rightarrow> j
      | None \<Rightarrow> if text_body r \<noteq> [] then JObj [(''message'', JStr (text_body r))]
                else JObj [])"

definition handle_response :: "response \<Rightarrow> py_exception + json" where
  "handle_response r =
     (let data = response_data r
      in if ok r then Inr data
         else
           (case error_field data ''message'' of
              Inl e \<Rightarrow> Inl e
            | Inr m \<Rightarrow>
               (let message = py_or m (JStr ''API error'') in
                case error_field data ''details'' of
                  Inl e \<Rightarrow> Inl e
                | Inr details \<Rightarrow>
                    if status r = 401 then Inl (Z402 (AuthenticationError message details))
                    else if status r = 400 then Inl (Z402 (InvalidRequestError message details))
                    else if status r = 402 then
                      (case py_get data ''payment'' (JObj []) of
                         Inl e \<Rightarrow> Inl e
                       | Inr payment_info \<Rightarrow>
                           (case py_get payment_info ''amount'' JNull of
                              Inl e \<Rightarrow> Inl e
                            | Inr amt \<Rightarrow>
                                (case py_get payment_info ''resource'' JNull of
                                   Inl e \<Rightarrow> Inl e
                                 | Inr res \<Rightarrow>
                                     Inl (Z402 (PaymentRequiredError message amt res details)))))
                    else if status r = 404 then Inl (Z402 (NotFoundError message details))
                    else if status r = 429 then
                      (case headers_get (headers r) ''retry-after'' of
                         None \<Rightarrow> Inl (Z402 (RateLimitError message None details))
                       | Some ra \<Rightarrow>
                           if ra = [] then Inl (Z402 (RateLimitError message None details))
                           else (case parse_int ra of
                                   None \<Rightarrow> Inl ValueError
                                 | Some n \<Rightarrow>
                                     Inl (Z402 (RateLimitError message (Some n) details))))
                    else Inl (Z402 (APIError message (Some (status r)) details)))))"

text \<open>One attempt of \<^verbatim>\<open>request\<close>: the transport times out, fails with a client error,
  or delivers a response that \<^verbatim>\<open>_handle_response\<close> classifies.\<close>

datatype transport = Timeout | ClientError string | Delivered response

fun request_once :: "transport \<Rightarrow> py_exception + json" where
  "request_once Timeout = Inl (Z402 (NetworkError ''Request timeout'' None))"
| "request_once (ClientError msg) = Inl (Z402 (NetworkError msg (Some msg)))"
| "request_once (Delivered r) = handle_response r"

text \<open>\<^verbatim>\<open>request\<close> is \<^verbatim>\<open>@retry_with_backoff()\<close> around one attempt.  The world is the
  outcome of the transport at each attempt; the state is the number of attempts made.\<close>

definition request_attempt :: "(nat \<Rightarrow> transport) \<Rightarrow> nat \<Rightarrow> (py_exception + json) \<times> nat" where
  "request_attempt world n = (request_once (world n), Suc n)"

definition request :: "(nat \<Rightarrow> transport) \<Rightarrow> (json, nat) retry_outcome" where
  "request world = retry_with_backoff default_retry_config (request_attempt world) 0"

text \<open>A body whose entry under a key, if there is one, is itself a dict.\<close>

fun is_dict :: "json \<Rightarrow> bool" where
  "is_dict (JObj kvs) = True"
| "is_dict j = False"

definition dict_or_absent :: "json \<Rightarrow> string \<Rightarrow> bool" where
  "dict_or_absent data key =
     (case data of
        JObj kvs \<Rightarrow> (case map_of kvs key of None \<Rightarrow> True | Some v \<Rightarrow> is_dict v)
      | _ \<Rightarrow> False)"

section \<open>Webhook signatures: \<^verbatim>\<open>z402/utils/webhook.py\<close>\<close>

text \<open>
  The functions of the standard library that the module calls are parameters of the
  model: the HMAC-SHA256 digest of a message under a key (both strings, encoded as UTF-8
  by the source), the compact JSON encoder and the JSON decoder (\<open>None\<close> for
  \<^verbatim>\<open>JSONDecodeError\<close>), the UTF-8 decoder of a byte string (\<open>None\<close> for
  \<^verbatim>\<open>UnicodeDecodeError\<close>), and the \<^verbatim>\<open>repr\<close> of a byte string.
\<close>

record stdlib =
  hmac_sha256 :: "string \<Rightarrow> string \<Rightarrow> 8 word list"
  json_dumps :: "(string \<times> json) list \<Rightarrow> string"
  json_loads :: "string \<Rightarrow> json option"
  utf8_decode :: "8 word list \<Rightarrow> string option"
  bytes_repr :: "8 word list \<Rightarrow> string"

text \<open>\<^verbatim>\<open>hexdigest()\<close>: two lower-case hexadecimal digits per byte.\<close>

definition hex_digit :: "nat \<Rightarrow> char" where
  "hex_digit n = ''0123456789abcdef'' ! (n mod 16)"

definition hex_of_byte :: "8 word \<Rightarrow> string" where
  "hex_of_byte w = [hex_digit (unat w div 16), hex_digit (unat w mod 16)]"

definition hexdigest :: "8 word list \<Rightarrow> string" where
  "hexdigest d = concat (map hex_of_byte d)"


datatype payload = PStr string | PBytes "8 word list" | PDict "(string \<times> json) list"

text \<open>\<^verbatim>\<open>hmac.compare_digest\<close> on two strings: \<^verbatim>\<open>TypeError\<close> when one of them holds a
  character that is not ASCII, equality otherwise.\<close>

definition is_ascii :: "string \<Rightarrow> bool" where
  "is_ascii s = list_all (\<lambda>c. (of_char c :: nat) < 128) s"

definition compare_digest :: "string \<Rightarrow> string \<Rightarrow> py_exception + bool" where
  "compare_digest a b = (if is_ascii a \<and> is_ascii b then Inr (a = b) else Inl TypeError)"

definition verification_error :: "string \<Rightarrow> py_exception + 'a" where
  "verification_error msg = Inl (Z402 (WebhookVerificationError msg))"

text \<open>``Convert payload to string'' in \<^verbatim>\<open>verify_webhook\<close>: a dict is encoded, a byte
  string decoded (\<open>None\<close> for \<^verbatim>\<open>UnicodeDecodeError\<close>), a string taken as it is.\<close>

definition verify_payload_string :: "stdlib \<Rightarrow> payload \<Rightarrow> string option" where
  "verify_payload_string lib payload =
     (case payload of
        PDict d \<Rightarrow> Some (json_dumps lib d)
      | PBytes bs \<Rightarrow> utf8_decode lib bs
      | PStr s \<Rightarrow> Some s)"

text \<open>The same step in \<^verbatim>\<open>construct_webhook_signature\<close>, whose payload is declared a
  string or a dict: whatever is not a dict goes into the f-string as it is, which for a
  byte string means its \<^verbatim>\<open>repr\<close>.\<close>

definition construct_payload_string :: "stdlib \<Rightarrow> payload \<Rightarrow> string" where
  "construct_payload_string lib payload =
     (case payload of
        PDict d \<Rightarrow> json_dumps lib d
      | PStr s \<Rightarrow> s
      | PBytes bs \<Rightarrow> bytes_repr lib bs)"

text \<open>\<^verbatim>\<open>verify_webhook\<close>; \<open>now\<close> is \<^verbatim>\<open>int(time.time())\<close>.  A missing signature header
  (\<^verbatim>\<open>None\<close>) is the empty string; \<open>ts\<close> is the source's \<^verbatim>\<open>timestamp\<close>.\<close>

definition verify_webhook ::
  "stdlib \<Rightarrow> payload \<Rightarrow> string \<Rightarrow> string \<Rightarrow> int \<Rightarrow> int \<Rightarrow> py_exception + json" where
  "verify_webhook lib payload signature secret tolerance now =
     (if signature = [] then verification_error ''Missing signature header''
      else if secret = [] then verification_error ''Webhook secret not provided''
      else
        (let parts = split_on CHR '','' signature in
         case (find (\<lambda>p. startswith p ''t='') parts, find (\<lambda>p. startswith p ''v1='') parts) of
           (Some timestamp_part, Some signature_part) \<Rightarrow>
             (case (after_first CHR ''='' timestamp_part, after_first CHR ''='' signature_part) of
                (Some timestamp_str, Some provided_signature) \<Rightarrow>
                  (case parse_int timestamp_str of
                     None \<Rightarrow> verification_error ''Invalid timestamp in signature''
                   | Some ts \<Rightarrow>
                       if \<bar>now - ts\<bar> > tolerance
                       then verification_error ''Signature timestamp too old''
                       else
                         (case verify_payload_string lib payload of
                            None \<Rightarrow> Inl UnicodeDecodeError
                          | Some payload_string \<Rightarrow>
                              (let signed_payload = str_int ts @ ''.'' @ payload_string;
                                   expected_signature =
                                     hexdigest (hmac_sha256 lib secret signed_payload)
                               in case compare_digest expected_signature provided_signature of
                                    Inl e \<Rightarrow> Inl e
                                  | Inr same \<Rightarrow>
                                      if \<not> same then verification_error ''Invalid signature''
                                      else (case payload of
                                              PDict d \<Rightarrow> Inr (JObj d)
                                            | _ \<Rightarrow>
                                              (case json_loads lib payload_string of
                                                 None \<Rightarrow> verification_error ''Invalid JSON payload''
                                               | Some event \<Rightarrow> Inr event)))))
              | _ \<Rightarrow> Inl IndexError)
         | _ \<Rightarrow> verification_error ''Invalid signature format''))"

text \<open>\<^verbatim>\<open>construct_webhook_signature\<close>; \<open>now\<close> is \<^verbatim>\<open>int(time.time())\<close>.\<close>

definition construct_webhook_signature :: "stdlib \<Rightarrow> payload \<Rightarrow> string \<Rightarrow> int \<Rightarrow> string" where
  "construct_webhook_signature lib payload secret now =
     (let ts = now;
          payload_string = construct_payload_string lib payload;
          signed_payload = str_int ts @ ''.'' @ payload_string;
          signature = hexdigest (hmac_sha256 lib secret signed_payload)
      in ''t='' @ str_int ts @ '',v1='' @ signature)"

text \<open>
  An instance of the library functions for examples.  Its JSON functions are those of
  Python on the payloads of the examples (an empty object, the event of the
  specification's scenario, and the text \<^verbatim>\<open>hello\<close>, which is not JSON); the digest is a
  stand-in for HMAC-SHA256 with the same interface.
\<close>

definition example_event :: "(string \<times> json) list" where
  "example_event = [(''type'', JStr ''payment.settled'')]"

definition example_event_text :: string where
  "example_event_text =
     [CHR ''{'', CHR 0x22] @ ''type'' @ [CHR 0x22, CHR '':'', CHR 0x22] @ ''payment.settled''
       @ [CHR 0x22, CHR ''}'']"

definition example_lib :: stdlib where
  "example_lib =
     \<lparr>hmac_sha256 = (\<lambda>key msg. [of_nat (length key), of_nat (length msg),
                                    of_nat (sum_list (map of_char (key @ msg)))]),
      json_dumps = (\<lambda>d. if d = [] then ''{}''
                          else if d = example_event then example_event_text else ''{...}''),
      json_loads = (\<lambda>s. if s = ''{}'' then Some (JObj [])
                          else if s = example_event_text then Some (JObj example_event)
                          else None),
      utf8_decode = (\<lambda>bs. if list_all (\<lambda>b. b < 128) bs
                           then Some (map (\<lambda>b. char_of (unat b)) bs) else None),
      bytes_repr = (\<lambda>bs. ''b'' @ [CHR 0x27] @ map (\<lambda>b. char_of (unat b)) bs @ [CHR 0x27])\<rparr>"

section \<open>Theorems about the spend ledger\<close>

text \<open>
  C10.  When \<^verbatim>\<open>record_spend\<close> raises \<^verbatim>\<open>BudgetExceededError\<close> the manager is unchanged:
  no record is appended, and \<^verbatim>\<open>can_spend\<close>, \<^verbatim>\<open>get_daily_spent\<close>,
  \<^verbatim>\<open>get_transaction_history\<close> and \<^verbatim>\<open>get_statistics\<close> answer as before the call.  When it
  succeeds, exactly one record is appended at the end of the ledger (the one of the
  call), and the limits are untouched.
\<close>

theorem record_spend_error_unchanged_success_appends_one:
  assumes "record_spend b amt txid meta t_check t_next = (res, b')"
  shows "case res of
           Inl e \<Rightarrow>
             b' = b \<and> transactions b' = transactions b
             \<and> can_spend b' a t = can_spend b a t
             \<and> get_daily_spent b' t = get_daily_spent b t
             \<and> get_transaction_history b' h t = get_transaction_history b h t
             \<and> get_statistics b' t t2 = get_statistics b t t2
         | Inr u \<Rightarrow>
             transactions b' = transactions b @
               [\<lparr>amount = amt, transaction_id = txid, timestamp = t_next,
                 metadata = (case meta of None \<Rightarrow> [] | Some m \<Rightarrow> m)\<rparr>]
             \<and> length (transactions b') = Suc (length (transactions b))
             \<and> daily_limit b' = daily_limit b
             \<and> hourly_limit b' = hourly_limit b
             \<and> transaction_limit b' = transaction_limit b"
  using assms by (auto simp: record_spend_def split: if_splits)

theorem record_spend_error_unchanged_success_appends_one_witness:
  "record_spend (BudgetManager_init 1 None None) 2 ''tx1'' None 0 0
     = (Inl (Z402 (BudgetExceededError ''Spending would exceed budget limits'' 1 0)),
        BudgetManager_init 1 None None)
   \<and> can_spend (BudgetManager_init 1 None None) (1/2) 5
     = can_spend (BudgetManager_init 1 None None) (1/2) 5
   \<and> record_spend (BudgetManager_init 1 None None) (1/2) ''tx2'' None 0 7
     = (Inr (), (BudgetManager_init 1 None None)\<lparr>transactions :=
          [\<lparr>amount = 1/2, transaction_id = ''tx2'', timestamp = 7, metadata = []\<rparr>]\<rparr>)
   \<and> length (transactions
         (snd (record_spend (BudgetManager_init 1 None None) (1/2) ''tx2'' None 0 7))) = Suc 0"
proof -
  have e: "record_spend (BudgetManager_init 1 None None) 2 ''tx1'' None 0 0
     = (Inl (Z402 (BudgetExceededError ''Spending would exceed budget limits'' 1 0)),
        BudgetManager_init 1 None None)"
    by (simp add: record_spend_def can_spend_def BudgetManager_init_def spent_since_def
                  get_daily_spent_def)
  have s: "record_spend (BudgetManager_init 1 None None) (1/2) ''tx2'' None 0 7
     = (Inr (), (BudgetManager_init 1 None None)\<lparr>transactions :=
          [\<lparr>amount = 1/2, transaction_id = ''tx2'', timestamp = 7, metadata = []\<rparr>]\<rparr>)"
    by (simp add: record_spend_def can_spend_def BudgetManager_init_def spent_since_def
                  get_daily_spent_def)
  from record_spend_error_unchanged_success_appends_one[OF e, of "1/2" 5 24 5]
       record_spend_error_unchanged_success_appends_one[OF s, of 0 0 0 0] e s
  show ?thesis by simp
qed

subsection \<open>Windowed sums\<close>









lemmas budget_eval =
  record_spend_def can_spend_def BudgetManager_init_def spent_since_def get_daily_spent_def
  get_hourly_spent_def timedelta_days_def timedelta_hours_def spend_def



subsection \<open>The affordability query\<close>

text \<open>What \<^verbatim>\<open>can_spend\<close> computes when no configured limit is zero: the
  per-transaction limit first, then both windows.\<close>

lemma can_spend_nonzero_limits:
  assumes "transaction_limit b \<noteq> Some 0" and "hourly_limit b \<noteq> Some 0"
  shows "can_spend b a now \<longleftrightarrow>
           (case transaction_limit b of None \<Rightarrow> True | Some l \<Rightarrow> a \<le> l)
           \<and> get_daily_spent b now + a \<le> daily_limit b
           \<and> (case hourly_limit b of None \<Rightarrow> True
               | Some h \<Rightarrow> get_hourly_spent b now + a \<le> h)"
  using assms
  by (auto simp: can_spend_def get_daily_spent_def get_hourly_spent_def
           split: option.splits)

text \<open>A limit of zero counts as not set (\<^verbatim>\<open>if self.transaction_limit and ...\<close>,
  \<^verbatim>\<open>if self.hourly_limit:\<close>): the check of that limit is skipped.\<close>

lemma can_spend_zero_limits_skipped:
  "can_spend (b\<lparr>transaction_limit := Some 0\<rparr>) a now = can_spend (b\<lparr>transaction_limit := None\<rparr>) a now"
  "can_spend (b\<lparr>hourly_limit := Some 0\<rparr>) a now = can_spend (b\<lparr>hourly_limit := None\<rparr>) a now"
  by (simp_all add: can_spend_def cong: option.case_cong)

text \<open>The scenario of the specification: limits daily 1.0, hourly 0.1, per transaction
  0.05; three spends of 0.03 are accepted, the fourth is rejected by the hourly window
  (0.12 > 0.1) although the daily window would allow it (0.12 \<le> 1.0).\<close>

lemma can_spend_scenario:
  "fst (record_spends (BudgetManager_init 1 (Some (1/10)) (Some (1/20)))
          [spend (3/100) ''a'' 0 0, spend (3/100) ''b'' 1 1, spend (3/100) ''c'' 2 2,
           spend (3/100) ''d'' 3 3])
     = [Inr (), Inr (), Inr (),
        Inl (Z402 (BudgetExceededError ''Spending would exceed budget limits'' 1 (9/100)))]"
  "can_spend (snd (record_spends (BudgetManager_init 1 (Some (1/10)) (Some (1/20)))
          [spend (3/100) ''a'' 0 0, spend (3/100) ''b'' 1 1, spend (3/100) ''c'' 2 2]))
        (3/100) 3 = False"
  "can_spend (snd (record_spends (BudgetManager_init 1 None (Some (1/20)))
          [spend (3/100) ''a'' 0 0, spend (3/100) ''b'' 1 1, spend (3/100) ''c'' 2 2]))
        (3/100) 3 = True"
  by (simp_all add: budget_eval)

text \<open>
  C8.  The claim: \<^verbatim>\<open>can_spend\<close> returns false whenever the amount exceeds the
  per-transaction limit when one is set, and checks the hourly window when an hourly limit
  is set.  The code at a limit of zero: with \<^verbatim>\<open>transaction_limit="0"\<close> a spend of 1
  exceeds the limit and is allowed; with \<^verbatim>\<open>hourly_limit="0"\<close> a spend of 1 brings
  the trailing hour to 1 > 0 and is allowed.
\<close>

theorem can_spend_allows_spend_over_zero_limit:
  "transaction_limit (BudgetManager_init 10 None (Some 0)) = Some 0
   \<and> can_spend (BudgetManager_init 10 None (Some 0)) 1 0 = True
   \<and> hourly_limit (BudgetManager_init 10 (Some 0) None) = Some 0
   \<and> get_hourly_spent (BudgetManager_init 10 (Some 0) None) 0 + 1 = 1
   \<and> can_spend (BudgetManager_init 10 (Some 0) None) 1 0 = True"
  by (simp add: budget_eval)

subsection \<open>Interleaved calls\<close>

text \<open>A task that runs its two sections one after the other, with no other task in
  between, is the sequential \<^verbatim>\<open>record_spend\<close>.\<close>

lemma task_two_steps_is_record_spend:
  "(case task_step b \<lparr>task_amount = a, task_transaction_id = i, task_metadata = m,
                      task_pc = Pending\<rparr> t1 of
      (b1, k1) \<Rightarrow> (case task_step b1 k1 t2 of
         (b2, k2) \<Rightarrow> (case task_pc k2 of Raised e \<Rightarrow> (Inl e, b2) | _ \<Rightarrow> (Inr (), b2))))
   = record_spend b a i m t1 t2"
  by (simp add: task_step_def record_spend_def)


section \<open>Theorems about the retry loop\<close>

text \<open>The field \<open>calls\<close> of the outcome is the number of invocations: a counter
  threaded through the wrapped function ends that much higher.\<close>

lemma retry_loop_counting:
  "outcome (retry_loop cfg (counting func) as d l (s, n)) = outcome (retry_loop cfg func as d l s)
   \<and> calls (retry_loop cfg (counting func) as d l (s, n)) = calls (retry_loop cfg func as d l s)
   \<and> final_state (retry_loop cfg (counting func) as d l (s, n))
       = (final_state (retry_loop cfg func as d l s), n + calls (retry_loop cfg func as d l s))"
proof (induction as arbitrary: d l s n)
  case Nil
  show ?case by simp
next
  case (Cons a as)
  obtain r s' where f: "func s = (r, s')" by (cases "func s")
  show ?case
  proof (cases r)
    case (Inr v)
    with f show ?thesis by (simp add: counting_def)
  next
    case (Inl e)
    with f Cons.IH[of "next_delay cfg e d * backoff_multiplier cfg" "Some e" s' "Suc n"]
    show ?thesis by (simp add: counting_def Let_def after_wait_def)
  qed
qed

lemma retry_loop_all_retryable:
  assumes always: "\<And>s. \<exists>e. fst (func s) = Inl e \<and> is_retryable_error e"
  shows "k \<le> max_retries cfg \<Longrightarrow> n = nat (max_retries cfg - k) \<Longrightarrow>
         calls (retry_loop cfg func [k..max_retries cfg] d l s) = Suc n
         \<and> length (raised (retry_loop cfg func [k..max_retries cfg] d l s)) = Suc n
         \<and> length (sleeps (retry_loop cfg func [k..max_retries cfg] d l s)) = n
         \<and> outcome (retry_loop cfg func [k..max_retries cfg] d l s)
             = Inl (last (raised (retry_loop cfg func [k..max_retries cfg] d l s)))
         \<and> list_all is_retryable_error (raised (retry_loop cfg func [k..max_retries cfg] d l s))"
proof (induction n arbitrary: k d l s)
  case 0
  then have k: "k = max_retries cfg" by simp
  obtain e s' where f: "func s = (Inl e, s')" and r: "is_retryable_error e"
    using always[of s] by (cases "func s") auto
  show ?case using f r by (simp add: k)
next
  case (Suc n)
  then have k: "k < max_retries cfg" and n: "n = nat (max_retries cfg - (k + 1))"
    and k1: "k + 1 \<le> max_retries cfg" by auto
  obtain e s' where f: "func s = (Inl e, s')" and r: "is_retryable_error e"
    using always[of s] by (cases "func s") auto
  have up: "[k..max_retries cfg] = k # [k + 1..max_retries cfg]"
    using k by (simp add: upto_rec1)
  let ?r = "retry_loop cfg func [k + 1..max_retries cfg]
              (next_delay cfg e d * backoff_multiplier cfg) (Some e) s'"
  from Suc.IH[OF k1 n, of "next_delay cfg e d * backoff_multiplier cfg" "Some e" s']
  have ih: "calls ?r = Suc n" "length (raised ?r) = Suc n" "length (sleeps ?r) = n"
    "outcome ?r = Inl (last (raised ?r))" "list_all is_retryable_error (raised ?r)"
    by auto
  from ih(2) have ne: "raised ?r \<noteq> []" by auto
  show ?case using f r k ih ne by (simp add: up Let_def after_wait_def)
qed

text \<open>
  C5 (as amended).  For \<open>max_retries \<ge> 0\<close>: when every invocation of the wrapped
  function raises a non-retryable error, it is invoked exactly once and the wrapper
  raises that error; when every invocation raises a retryable error, it is invoked exactly
  \<open>max_retries + 1\<close> times, with \<open>max_retries\<close> sleeps in between, and the wrapper
  raises the error of the last invocation.
\<close>

theorem retry_with_backoff_attempts:
  assumes "0 \<le> max_retries cfg"
  shows "((\<forall>s. \<exists>e. fst (func s) = Inl e \<and> \<not> is_retryable_error e) \<longrightarrow>
            calls (retry_with_backoff cfg func s0) = 1
            \<and> outcome (retry_with_backoff cfg func s0) = fst (func s0)
            \<and> sleeps (retry_with_backoff cfg func s0) = [])
       \<and> ((\<forall>s. \<exists>e. fst (func s) = Inl e \<and> is_retryable_error e) \<longrightarrow>
            int (calls (retry_with_backoff cfg func s0)) = max_retries cfg + 1
            \<and> int (length (raised (retry_with_backoff cfg func s0))) = max_retries cfg + 1
            \<and> int (length (sleeps (retry_with_backoff cfg func s0))) = max_retries cfg
            \<and> outcome (retry_with_backoff cfg func s0)
                = Inl (last (raised (retry_with_backoff cfg func s0))))"
proof (intro conjI impI)
  assume a: "\<forall>s. \<exists>e. fst (func s) = Inl e \<and> \<not> is_retryable_error e"
  then obtain e s' where f: "func s0 = (Inl e, s')" and r: "\<not> is_retryable_error e"
    by (cases "func s0") (metis fst_conv)
  have up: "[0..max_retries cfg] = 0 # [1..max_retries cfg]"
    using assms by (simp add: upto_rec1)
  show "calls (retry_with_backoff cfg func s0) = 1"
    "outcome (retry_with_backoff cfg func s0) = fst (func s0)"
    "sleeps (retry_with_backoff cfg func s0) = []"
    using f r by (simp_all add: retry_with_backoff_def up)
next
  assume a: "\<forall>s. \<exists>e. fst (func s) = Inl e \<and> is_retryable_error e"
  then have a': "\<And>s. \<exists>e. fst (func s) = Inl e \<and> is_retryable_error e" by blast
  from retry_loop_all_retryable[of func 0 cfg "nat (max_retries cfg)" "initial_delay cfg" None s0,
         OF a' assms]
  show "int (calls (retry_with_backoff cfg func s0)) = max_retries cfg + 1"
    "int (length (raised (retry_with_backoff cfg func s0))) = max_retries cfg + 1"
    "int (length (sleeps (retry_with_backoff cfg func s0))) = max_retries cfg"
    "outcome (retry_with_backoff cfg func s0)
       = Inl (last (raised (retry_with_backoff cfg func s0)))"
    using assms by (simp_all add: retry_with_backoff_def)
qed

lemmas retry_eval =
  retry_with_backoff_def default_retry_config_def next_delay_def always_raising_def
  counting_def upto_rec1 Let_def after_wait_def

theorem retry_with_backoff_attempts_witness:
  "calls (retry_with_backoff default_retry_config
            (counting (always_raising (Z402 (AuthenticationError (JStr ''denied'') JNull))))
            ((), 0)) = 1
   \<and> outcome (retry_with_backoff default_retry_config
            (counting (always_raising (Z402 (AuthenticationError (JStr ''denied'') JNull))))
            ((), 0)) = Inl (Z402 (AuthenticationError (JStr ''denied'') JNull))
   \<and> final_state (retry_with_backoff default_retry_config
            (counting (always_raising (Z402 (AuthenticationError (JStr ''denied'') JNull))))
            ((), 0)) = ((), 1)
   \<and> int (calls (retry_with_backoff default_retry_config
            (counting (always_raising (Z402 (NetworkError ''down'' None)))) ((), 0))) = 3 + 1
   \<and> outcome (retry_with_backoff default_retry_config
            (counting (always_raising (Z402 (NetworkError ''down'' None)))) ((), 0))
       = Inl (Z402 (NetworkError ''down'' None))
   \<and> final_state (retry_with_backoff default_retry_config
            (counting (always_raising (Z402 (NetworkError ''down'' None)))) ((), 0)) = ((), 4)"
proof -
  let ?auth = "counting (always_raising (Z402 (AuthenticationError (JStr ''denied'') JNull)))"
  let ?net = "counting (always_raising (Z402 (NetworkError ''down'' None)))"
  have m: "0 \<le> max_retries default_retry_config"
    by (simp add: default_retry_config_def)
  have a: "\<forall>s. \<exists>e. fst (?auth s) = Inl e \<and> \<not> is_retryable_error e"
    by (simp add: counting_def always_raising_def)
  have n: "\<forall>s. \<exists>e. fst (?net s) = Inl e \<and> is_retryable_error e"
    by (simp add: counting_def always_raising_def)
  have fa: "final_state (retry_with_backoff default_retry_config ?auth ((), 0)) = ((), 1)"
    by (simp add: retry_eval)
  have fn: "final_state (retry_with_backoff default_retry_config ?net ((), 0)) = ((), 4)"
    by (simp add: retry_eval)
  have ln: "last (raised (retry_with_backoff default_retry_config ?net ((), 0)))
              = Z402 (NetworkError ''down'' None)"
    by (simp add: retry_eval)
  from retry_with_backoff_attempts[OF m, of ?auth "((), 0)"] a
       retry_with_backoff_attempts[OF m, of ?net "((), 0)"] n fa fn ln
  show ?thesis
    by (simp add: counting_def always_raising_def default_retry_config_def)
qed

text \<open>
  The claim C5 as it is written, for every \<open>max_retries\<close>, fails at \<open>max_retries = -1\<close>:
  \<^verbatim>\<open>range(0)\<close> is empty, the wrapped function is never invoked, and
  \<^verbatim>\<open>raise last_error\<close> raises \<^verbatim>\<open>UnboundLocalError\<close> instead of an error of the function.
\<close>

theorem retry_with_backoff_attempts_counterexample:
  "retry_with_backoff (default_retry_config\<lparr>max_retries := - 1\<rparr>)
      (counting (always_raising (Z402 (AuthenticationError (JStr ''denied'') JNull)))) ((), 0)
     = \<lparr>outcome = Inl UnboundLocalError, calls = 0, raised = [], sleeps = [],
        final_state = ((), 0)\<rparr>
   \<and> retry_with_backoff (default_retry_config\<lparr>max_retries := - 1\<rparr>)
      (counting (always_raising (Z402 (NetworkError ''down'' None)))) ((), 0)
     = \<lparr>outcome = Inl UnboundLocalError, calls = 0, raised = [], sleeps = [],
        final_state = ((), 0)\<rparr>"
  by (simp add: retry_with_backoff_def default_retry_config_def)

subsection \<open>The waits\<close>







section \<open>Theorems about the HTTP client\<close>

subsection \<open>Classification of errors\<close>

lemma is_retryable_error_iff:
  "is_retryable_error e \<longleftrightarrow>
     (\<exists>m d. e = Z402 (NetworkError m d))
     \<or> (\<exists>m r d. e = Z402 (RateLimitError m r d))
     \<or> (\<exists>z c. e = Z402 z \<and> status_code z = Some c \<and> 500 \<le> c \<and> c < 600)"
proof (cases e)
  case (Z402 z)
  then show ?thesis by (cases z) (auto split: option.splits)
qed simp_all

lemma not_retryable_client_errors:
  "\<not> is_retryable_error (Z402 (AuthenticationError m d))"
  "\<not> is_retryable_error (Z402 (InvalidRequestError m d))"
  "\<not> is_retryable_error (Z402 (NotFoundError m d))"
  "\<not> is_retryable_error (Z402 (PaymentRequiredError m a r d))"
  "\<not> is_retryable_error (Z402 (WebhookVerificationError w))"
  "\<not> is_retryable_error (Z402 (BudgetExceededError w l c))"
  "is_retryable_error (Z402 (APIError m (Some s) d)) \<longleftrightarrow> 500 \<le> s \<and> s < 600"
  by auto

lemma request_once_transport_failure:
  "request_once Timeout = Inl (Z402 (NetworkError ''Request timeout'' None))"
  "request_once (ClientError msg) = Inl (Z402 (NetworkError msg (Some msg)))"
  "is_retryable_error (Z402 (NetworkError msg d))"
  by simp_all

lemma handle_response_ok:
  "ok r \<Longrightarrow> handle_response r = Inr (response_data r)"
  by (simp add: handle_response_def)

lemma py_get_dict:
  assumes "dict_or_absent data key"
  shows "\<exists>d. py_get data key (JObj []) = Inr (JObj d)"
proof (cases data)
  case (JObj kvs)
  show ?thesis
  proof (cases "map_of kvs key")
    case None
    with JObj show ?thesis by simp
  next
    case (Some v)
    with assms JObj have "is_dict v" by (simp add: dict_or_absent_def)
    then obtain d where "v = JObj d" by (cases v) simp_all
    with JObj Some show ?thesis by simp
  qed
qed (use assms in \<open>simp_all add: dict_or_absent_def\<close>)

lemma error_field_dict:
  assumes "dict_or_absent data ''error''"
  shows "\<exists>v. error_field data field = Inr v"
proof -
  from py_get_dict[OF assms] obtain d where d: "py_get data ''error'' (JObj []) = Inr (JObj d)"
    by blast
  from assms obtain kvs where "data = JObj kvs"
    by (cases data) (simp_all add: dict_or_absent_def)
  with d show ?thesis by (simp add: error_field_def)
qed

text \<open>The table of the specification, for a response that is not \<^verbatim>\<open>ok\<close> and whose body
  is a dict with a dict (or nothing) under \<^verbatim>\<open>error\<close> and \<^verbatim>\<open>payment\<close>, and whose
  \<^verbatim>\<open>retry-after\<close>, if present and not empty, reads as an integer.\<close>

lemma handle_response_table:
  assumes "\<not> ok r" and "dict_or_absent (response_data r) ''error''"
    and "dict_or_absent (response_data r) ''payment''"
    and "\<And>ra. headers_get (headers r) ''retry-after'' = Some ra \<Longrightarrow> ra \<noteq> []
           \<Longrightarrow> parse_int ra \<noteq> None"
  shows "\<exists>message details amt res.
           handle_response r = Inl (Z402
             (if status r = 401 then AuthenticationError message details
              else if status r = 400 then InvalidRequestError message details
              else if status r = 402 then PaymentRequiredError message amt res details
              else if status r = 404 then NotFoundError message details
              else if status r = 429 then
                RateLimitError message
                  (case headers_get (headers r) ''retry-after'' of
                     None \<Rightarrow> None
                   | Some h \<Rightarrow> if h = [] then None else parse_int h)
                  details
              else APIError message (Some (status r)) details))"
proof -
  obtain m where m: "error_field (response_data r) ''message'' = Inr m"
    using error_field_dict[OF assms(2)] by blast
  obtain d where d: "error_field (response_data r) ''details'' = Inr d"
    using error_field_dict[OF assms(2)] by blast
  obtain p where p: "py_get (response_data r) ''payment'' (JObj []) = Inr (JObj p)"
    using py_get_dict[OF assms(3)] by blast
  show ?thesis
  proof (cases "headers_get (headers r) ''retry-after''")
    case None
    then show ?thesis using assms(1) m d p
      by (simp add: handle_response_def Let_def)
  next
    case (Some h)
    show ?thesis
    proof (cases "h = []")
      case True
      then show ?thesis using assms(1) m d p Some
        by (simp add: handle_response_def Let_def)
    next
      case False
      with assms(4)[OF Some] obtain n where "parse_int h = Some n"
        by (cases "parse_int h") auto
      then show ?thesis using assms(1) m d p Some False
        by (simp add: handle_response_def Let_def)
    qed
  qed
qed

text \<open>Of the SDK errors that \<^verbatim>\<open>_handle_response\<close> raises, the retryable ones are those
  of the statuses 429 and 500 to 599.\<close>

lemma py_get_raises:
  "py_get j key dflt = Inl e \<Longrightarrow> e = AttributeError"
  by (cases j) simp_all

lemma error_field_raises:
  "error_field data field = Inl e \<Longrightarrow> e = AttributeError"
  by (auto simp: error_field_def split: sum.splits if_splits dest: py_get_raises)

lemma handle_response_retryable:
  assumes "handle_response r = Inl (Z402 z)"
  shows "is_retryable_error (Z402 z) \<longleftrightarrow> status r = 429 \<or> (500 \<le> status r \<and> status r < 600)"
  using assms
  by (auto simp: handle_response_def Let_def ok_def
           split: if_splits sum.splits option.splits
           dest: py_get_raises error_field_raises)

text \<open>
  C7.  The claim: the classification follows the table for every response, so a 401 is
  an authentication error and a 429 a rate-limit error.  The code: a 401 whose JSON body
  is \<^verbatim>\<open>{"error": "Unauthorized"}\<close> makes \<^verbatim>\<open>data.get("error", {}).get("message")\<close> call
  \<^verbatim>\<open>get\<close> on a string, and \<^verbatim>\<open>AttributeError\<close> escapes; a 429 whose
  \<^verbatim>\<open>Retry-After\<close> header is an HTTP date makes \<^verbatim>\<open>int(retry_after)\<close> raise
  \<^verbatim>\<open>ValueError\<close>.  Neither exception is an SDK error, and neither is retried.
\<close>

theorem handle_response_escaping_exceptions:
  "handle_response
      \<lparr>status = 401, headers = [],
       json_body = Some (JObj [(''error'', JStr ''Unauthorized'')]), text_body = []\<rparr>
     = Inl AttributeError
   \<and> handle_response
      \<lparr>status = 429, headers = [(''Retry-After'', ''Wed, 21 Oct 2015 07:28:00 GMT'')],
       json_body = Some (JObj [(''message'', JStr ''Too many requests'')]), text_body = []\<rparr>
     = Inl ValueError
   \<and> is_retryable_error AttributeError = False
   \<and> is_retryable_error ValueError = False"
  by code_simp

subsection \<open>Request headers\<close>

lemma map_of_dict_update_other:
  "key \<notin> fst ` set other \<Longrightarrow> map_of (dict_update d other) key = map_of d key"
  unfolding dict_update_def
  by (induction other arbitrary: d) (auto simp: update_conv')

lemma dom_dict_update:
  "fst ` set (dict_update d other) = fst ` set d \<union> fst ` set other"
  unfolding dict_update_def
proof (induction other arbitrary: d)
  case Nil
  show ?case by simp
next
  case (Cons kv other)
  obtain k v where kv: "kv = (k, v)" by (cases kv)
  have "fst ` set (AList.update k v d) = insert k (fst ` set d)"
    using dom_update[of k v d] by (simp add: dom_map_of_conv_image_fst)
  with Cons.IH[of "AList.update k v d"] kv show ?case by auto
qed

lemma map_of_dict_update_distinct:
  "distinct (map fst other) \<Longrightarrow> (key, v) \<in> set other
     \<Longrightarrow> map_of (dict_update d other) key = Some v"
  unfolding dict_update_def
proof (induction other arbitrary: d)
  case Nil
  then show ?case by simp
next
  case (Cons kv other)
  obtain k w where kv: "kv = (k, w)" by (cases kv)
  show ?case
  proof (cases "(key, v) \<in> set other")
    case True
    with Cons kv show ?thesis by simp
  next
    case False
    with Cons.prems kv have e: "k = key" "w = v" and n: "key \<notin> fst ` set other"
      by auto
    from map_of_dict_update_other[OF n, of "AList.update key v d"]
    show ?thesis by (simp add: kv e dict_update_def update_conv')
  qed
qed

text \<open>
  C9 (as amended).  The headers of every request have the names \<^verbatim>\<open>Content-Type\<close>,
  \<^verbatim>\<open>X-API-Key\<close> and \<^verbatim>\<open>User-Agent\<close>; custom headers cannot remove a name.  Each of
  the three has its required value (\<^verbatim>\<open>application/json\<close>, the API key,
  \<^verbatim>\<open>z402-python-sdk/0.1.0\<close>) unless the custom headers have an entry of that very
  name, and every entry of the custom headers (a dict: its names are distinct) is in the
  result, so an entry of the same name replaces the required value.
\<close>

theorem build_headers_required:
  "{''Content-Type'', ''X-API-Key'', ''User-Agent''} \<subseteq> fst ` set (build_headers api_key custom)
   \<and> (\<forall>name. name \<notin> (case custom of None \<Rightarrow> {} | Some c \<Rightarrow> fst ` set c) \<longrightarrow>
          map_of (build_headers api_key custom) name
            = map_of [(''Content-Type'', ''application/json''), (''X-API-Key'', api_key),
                      (''User-Agent'', ''z402-python-sdk/0.1.0'')] name)
   \<and> (\<forall>c name v. custom = Some c \<and> distinct (map fst c) \<and> (name, v) \<in> set c \<longrightarrow>
          map_of (build_headers api_key custom) name = Some v)"
proof (cases custom)
  case None
  then show ?thesis by (simp add: build_headers_def)
next
  case (Some c)
  show ?thesis
  proof (cases "c = []")
    case True
    with Some show ?thesis by (simp add: build_headers_def)
  next
    case False
    let ?base = "[(''Content-Type'', ''application/json''), (''X-API-Key'', api_key),
                  (''User-Agent'', ''z402-python-sdk/0.1.0'')]"
    have b: "build_headers api_key custom = dict_update ?base c"
      using Some False by (simp add: build_headers_def)
    have 1: "{''Content-Type'', ''X-API-Key'', ''User-Agent''} \<subseteq> fst ` set (dict_update ?base c)"
      unfolding dom_dict_update by simp
    have 2: "name \<notin> fst ` set c \<Longrightarrow> map_of (dict_update ?base c) name = map_of ?base name"
      for name by (rule map_of_dict_update_other)
    have 3: "distinct (map fst c) \<Longrightarrow> (name, v) \<in> set c
               \<Longrightarrow> map_of (dict_update ?base c) name = Some v" for name v
      by (rule map_of_dict_update_distinct)
    from 1 2 3 show ?thesis unfolding b using Some by auto
  qed
qed

theorem build_headers_required_witness:
  "map_of (build_headers ''sk_test'' (Some [(''X-Trace'', ''abc'')])) ''Content-Type''
     = Some ''application/json''
   \<and> map_of (build_headers ''sk_test'' (Some [(''X-Trace'', ''abc'')])) ''X-API-Key''
     = Some ''sk_test''
   \<and> map_of (build_headers ''sk_test'' (Some [(''X-Trace'', ''abc'')])) ''User-Agent''
     = Some ''z402-python-sdk/0.1.0''
   \<and> map_of (build_headers ''sk_test'' (Some [(''X-Trace'', ''abc'')])) ''X-Trace''
     = Some ''abc''"
proof -
  let ?c = "[(''X-Trace'', ''abc'')]"
  have n: "''Content-Type'' \<notin> fst ` set ?c" "''X-API-Key'' \<notin> fst ` set ?c"
    "''User-Agent'' \<notin> fst ` set ?c" by simp_all
  have d: "distinct (map fst ?c)" "(''X-Trace'', ''abc'') \<in> set ?c" by simp_all
  from build_headers_required[of "''sk_test''" "Some ?c"] n d
  show ?thesis by simp
qed

text \<open>
  The claim C9 as it is written says that custom headers cannot displace a required
  header.  \<^verbatim>\<open>headers.update(custom_headers)\<close> lets a custom entry of the same name replace
  it: the content type is then no longer \<^verbatim>\<open>application/json\<close>, and the API key no
  longer the client's.
\<close>

theorem build_headers_required_counterexample:
  "build_headers ''sk_test''
      (Some [(''Content-Type'', ''text/plain''), (''X-API-Key'', ''other'')])
     = [(''Content-Type'', ''text/plain''), (''X-API-Key'', ''other''),
        (''User-Agent'', ''z402-python-sdk/0.1.0'')]"
  by (simp add: build_headers_def dict_update_def)

subsection \<open>The pipeline with its default retry policy\<close>

text \<open>\<^verbatim>\<open>request\<close> against a transport that always times out makes four attempts with
  waits of 1, 2 and 4 seconds and raises the network error; against a server that always
  answers 401 it makes one attempt.\<close>

lemma request_always_timeout:
  "request (\<lambda>n. Timeout)
     = \<lparr>outcome = Inl (Z402 (NetworkError ''Request timeout'' None)), calls = 4,
        raised = replicate 4 (Z402 (NetworkError ''Request timeout'' None)),
        sleeps = [1, 2, 4], final_state = 4\<rparr>"
  by code_simp

lemma request_always_unauthorized:
  "request (\<lambda>n. Delivered \<lparr>status = 401, headers = [],
                json_body = Some (JObj [(''error'', JObj [(''message'', JStr ''bad key'')])]),
                text_body = []\<rparr>)
     = \<lparr>outcome = Inl (Z402 (AuthenticationError (JStr ''bad key'') JNull)), calls = 1,
        raised = [Z402 (AuthenticationError (JStr ''bad key'') JNull)],
        sleeps = [], final_state = 1\<rparr>"
  by code_simp

section \<open>Theorems about the webhook signatures\<close>

subsection \<open>Printing and reading integers\<close>

lemma is_digit_digit_char [simp]: "is_digit (digit_char n)"
proof -
  have "n mod 10 < 10" by simp
  then have "48 + n mod 10 < 256" by linarith
  then show ?thesis
    by (simp add: is_digit_def digit_char_def)
qed

lemma digit_val_digit_char [simp]: "digit_val (digit_char n) = n mod 10"
proof -
  have "n mod 10 < 10" by simp
  then have "48 + n mod 10 < 256" by linarith
  then show ?thesis
    by (simp add: digit_val_def digit_char_def)
qed

lemma is_digit_not_special:
  assumes "is_digit c"
  shows "\<not> is_space c" and "c \<noteq> CHR '',''" and "c \<noteq> CHR ''-''" and "c \<noteq> CHR ''+''"
    and "c \<noteq> CHR ''_''"
  using assms by (auto simp: is_digit_def is_space_def Let_def)

lemma str_nat_digits: "list_all is_digit (str_nat n)"
  by (induction n rule: str_nat.induct) (subst str_nat.simps, simp)

lemma str_nat_nonempty: "str_nat n \<noteq> []"
  by (subst str_nat.simps) simp

lemma digits_value_all_digits:
  "list_all is_digit ds \<Longrightarrow>
   digits_value acc ds = Some (foldl (\<lambda>a c. 10 * a + digit_val c) acc ds)"
  by (induction ds arbitrary: acc) simp_all

lemma parse_unsigned_all_digits:
  "list_all is_digit ds \<Longrightarrow> ds \<noteq> [] \<Longrightarrow>
   parse_unsigned ds = Some (foldl (\<lambda>a c. 10 * a + digit_val c) 0 ds)"
  by (cases ds) (simp_all add: parse_unsigned_def digits_value_all_digits)

lemma foldl_str_nat: "foldl (\<lambda>a c. 10 * a + digit_val c) 0 (str_nat n) = n"
proof (induction n rule: str_nat.induct)
  case (1 n)
  show ?case
  proof (cases "n < 10")
    case True
    then show ?thesis by (subst str_nat.simps) simp
  next
    case False
    with 1 have "foldl (\<lambda>a c. 10 * a + digit_val c) 0 (str_nat (n div 10)) = n div 10"
      by simp
    with False show ?thesis by (subst str_nat.simps) simp
  qed
qed

lemma parse_unsigned_str_nat: "parse_unsigned (str_nat n) = Some n"
  by (simp add: parse_unsigned_all_digits str_nat_digits str_nat_nonempty foldl_str_nat)

lemma strip_no_space:
  assumes "s \<noteq> []" and "\<not> is_space (hd s)" and "\<not> is_space (last s)"
  shows "strip s = s"
proof -
  from assms have 1: "dropWhile is_space s = s" by (cases s) simp_all
  from assms have "rev s \<noteq> []" "\<not> is_space (hd (rev s))" by (simp_all add: hd_rev)
  then have 2: "dropWhile is_space (rev s) = rev s" by (cases "rev s") simp_all
  show ?thesis by (simp add: strip_def 1 2)
qed

lemma str_nat_hd_last: "is_digit (hd (str_nat n))" "is_digit (last (str_nat n))"
  using str_nat_digits[of n] str_nat_nonempty[of n]
  by (simp_all add: list_all_iff)

lemma strip_str_int: "strip (str_int i) = str_int i"
proof (rule strip_no_space)
  show "str_int i \<noteq> []" by (simp add: str_int_def str_nat_nonempty)
  show "\<not> is_space (hd (str_int i))"
    using is_digit_not_special(1)[OF str_nat_hd_last(1)]
    by (simp add: str_int_def is_space_def Let_def)
  show "\<not> is_space (last (str_int i))"
    using is_digit_not_special(1)[OF str_nat_hd_last(2)]
    by (simp add: str_int_def str_nat_nonempty)
qed

text \<open>\<^verbatim>\<open>int(str(i)) == i\<close>\<close>

lemma parse_int_str_int: "parse_int (str_int i) = Some i"
proof (cases "i < 0")
  case True
  then show ?thesis
    by (simp add: parse_int_def strip_str_int) (simp add: str_int_def parse_unsigned_str_nat)
next
  case False
  obtain c cs where cs: "str_nat (nat i) = c # cs"
    using str_nat_nonempty[of "nat i"] by (cases "str_nat (nat i)") auto
  with str_nat_hd_last(1)[of "nat i"] have "is_digit c" by simp
  then have "c \<noteq> CHR ''-''" "c \<noteq> CHR ''+''" by (simp_all add: is_digit_not_special)
  moreover have "parse_unsigned (c # cs) = Some (nat i)"
    using parse_unsigned_str_nat[of "nat i"] cs by simp
  ultimately show ?thesis using False
    by (simp add: parse_int_def strip_str_int) (simp add: str_int_def cs)
qed

lemma str_int_no_comma: "CHR '','' \<notin> set (str_int i)"
  using str_nat_digits is_digit_not_special(2)
  by (auto simp: str_int_def list_all_iff)

subsection \<open>Splitting the header\<close>

lemma split_on_nonempty: "split_on sep s \<noteq> []"
  by (induction s) (auto split: list.splits)

lemma split_on_no_sep: "sep \<notin> set a \<Longrightarrow> split_on sep a = [a]"
  by (induction a) (auto split: list.splits)

lemma split_on_append:
  "sep \<notin> set a \<Longrightarrow> split_on sep (a @ sep # b) = a # split_on sep b"
  by (induction a) (auto split: list.splits simp: split_on_nonempty)

lemma split_canonical:
  assumes "CHR '','' \<notin> set mac"
  shows "split_on CHR '','' (''t='' @ str_int T @ '',v1='' @ mac)
           = [''t='' @ str_int T, ''v1='' @ mac]"
proof -
  have a: "CHR '','' \<notin> set (''t='' @ str_int T)"
    using str_int_no_comma[of T] by simp
  have b: "CHR '','' \<notin> set (''v1='' @ mac)"
    using assms by simp
  have "''t='' @ str_int T @ '',v1='' @ mac = (''t='' @ str_int T) @ CHR '','' # (''v1='' @ mac)"
    by simp
  then show ?thesis
    using split_on_append[OF a, of "''v1='' @ mac"] split_on_no_sep[OF b] by simp
qed

subsection \<open>The hexadecimal digest\<close>










subsection \<open>Verifying a header of the form \<^verbatim>\<open>t=<timestamp>,v1=<mac>\<close>\<close>

lemma verify_webhook_canonical:
  assumes "secret \<noteq> []" and "CHR '','' \<notin> set mac"
  shows "verify_webhook lib payload (''t='' @ str_int T @ '',v1='' @ mac) secret tolerance now
     = (if \<bar>now - T\<bar> > tolerance then verification_error ''Signature timestamp too old''
        else
          (case verify_payload_string lib payload of
             None \<Rightarrow> Inl UnicodeDecodeError
           | Some payload_string \<Rightarrow>
               (case compare_digest
                       (hexdigest (hmac_sha256 lib secret (str_int T @ ''.'' @ payload_string)))
                       mac of
                  Inl e \<Rightarrow> Inl e
                | Inr same \<Rightarrow>
                    if \<not> same then verification_error ''Invalid signature''
                    else (case payload of
                            PDict d \<Rightarrow> Inr (JObj d)
                          | _ \<Rightarrow>
                            (case json_loads lib payload_string of
                               None \<Rightarrow> verification_error ''Invalid JSON payload''
                             | Some event \<Rightarrow> Inr event)))))"
proof -
  define sig where "sig = ''t='' @ str_int T @ '',v1='' @ mac"
  have parts: "split_on CHR '','' sig = [''t='' @ str_int T, ''v1='' @ mac]"
    unfolding sig_def by (rule split_canonical[OF assms(2)])
  have ne: "sig \<noteq> []" by (simp add: sig_def)
  show ?thesis
    unfolding sig_def[symmetric] using assms(1) ne
    by (auto simp: verify_webhook_def parts startswith_def parse_int_str_int Let_def
             split: option.splits)
qed





text \<open>
  C4 (as amended).  For a non-empty secret and a header \<^verbatim>\<open>t=T,v1=<mac>\<close>,
  \<^verbatim>\<open>verify_webhook\<close> fails with the freshness error exactly when
  \<open>\<bar>now - T\<bar> > tolerance\<close>, whatever the payload and the mac, for timestamps in the past
  and in the future alike.  In particular it fails so at \<open>T + tolerance + 1\<close>, and, when
  the tolerance is at least 1, the freshness check passes at \<open>T + tolerance - 1\<close>.
\<close>

theorem verify_webhook_freshness:
  assumes "secret \<noteq> []" and "CHR '','' \<notin> set mac"
  shows "(verify_webhook lib payload (''t='' @ str_int T @ '',v1='' @ mac) secret tolerance now
            = verification_error ''Signature timestamp too old''
          \<longleftrightarrow> \<bar>now - T\<bar> > tolerance)
       \<and> verify_webhook lib payload (''t='' @ str_int T @ '',v1='' @ mac) secret tolerance
            (T + tolerance + 1)
          = verification_error ''Signature timestamp too old''
       \<and> (1 \<le> tolerance \<longrightarrow>
            verify_webhook lib payload (''t='' @ str_int T @ '',v1='' @ mac) secret tolerance
              (T + tolerance - 1)
            \<noteq> verification_error ''Signature timestamp too old'')"
proof -
  have iff: "verify_webhook lib payload (''t='' @ str_int T @ '',v1='' @ mac) secret tolerance n
            = verification_error ''Signature timestamp too old''
          \<longleftrightarrow> \<bar>n - T\<bar> > tolerance" for n
    unfolding verify_webhook_canonical[OF assms]
    by (auto simp: verification_error_def compare_digest_def
             split: option.splits sum.splits payload.splits if_splits)
  have 1: "\<bar>(T + tolerance + 1) - T\<bar> > tolerance" by simp
  have 2: "1 \<le> tolerance \<Longrightarrow> \<not> \<bar>(T + tolerance - 1) - T\<bar> > tolerance" by simp
  from iff[of now] iff[of "T + tolerance + 1"] iff[of "T + tolerance - 1"] 1 2
  show ?thesis by blast
qed

theorem verify_webhook_freshness_witness:
  "verify_webhook example_lib (PDict example_event)
      (''t='' @ str_int 1000 @ '',v1='' @ ''0a1e07'') ''whsec_test'' 300 (1000 + 300 + 1)
     = Inl (Z402 (WebhookVerificationError ''Signature timestamp too old''))
   \<and> verify_webhook example_lib (PDict example_event)
      (''t='' @ str_int 1000 @ '',v1='' @ ''0a1e07'') ''whsec_test'' 300 (1000 + 300 - 1)
     \<noteq> Inl (Z402 (WebhookVerificationError ''Signature timestamp too old''))
   \<and> verify_webhook example_lib (PDict example_event)
      (''t='' @ str_int 1000 @ '',v1='' @ ''0a1e07'') ''whsec_test'' 300 600
     = Inl (Z402 (WebhookVerificationError ''Signature timestamp too old''))"
proof -
  have h1: "''whsec_test'' \<noteq> []" by simp
  have h2: "CHR '','' \<notin> set ''0a1e07''" by simp
  have h3: "(1 :: int) \<le> 300" "\<bar>600 - 1000\<bar> > (300 :: int)" by simp_all
  from verify_webhook_freshness[OF h1 h2, where lib = example_lib
         and payload = "PDict example_event" and T = 1000 and tolerance = 300 and now = 600] h3
  show ?thesis by (simp add: verification_error_def)
qed

text \<open>
  The claim C4 as it is written, for every tolerance, fails at a tolerance of 0: a valid
  signature with timestamp 1000 is accepted at 1000 and rejected as stale at
  \<open>T + tolerance - 1 = 999\<close>, one second before its own timestamp.
\<close>

theorem verify_webhook_freshness_counterexample:
  "verify_webhook example_lib (PStr ''{}'')
      (construct_webhook_signature example_lib (PStr ''{}'') ''whsec_test'' 1000)
      ''whsec_test'' 0 1000
     = Inr (JObj [])
   \<and> verify_webhook example_lib (PStr ''{}'')
      (construct_webhook_signature example_lib (PStr ''{}'') ''whsec_test'' 1000)
      ''whsec_test'' 0 (1000 + 0 - 1)
     = Inl (Z402 (WebhookVerificationError ''Signature timestamp too old''))"
  by code_simp

end
